theory Spec2Isabelle
  imports Main
begin

section \<open>The recipe \<open>conanfile.py\<close>\<close>

text \<open>
  The repository is one file, a recipe class for a C++ package manager:
  \<^verbatim>\<open>
  class Conan(ConanFile):
      settings = "os", "compiler", "build_type", "arch"
      generators = "CMakeDeps", "CMakeToolchain"
      default_options = {
          "gtest/*:shared": True,
          "fmt/*:shared": True,
          "spdlog/*:shared": True,
      }

      def requirements(self):
          self.requires("gtest/1.14.0")
          self.requires("fmt/10.2.1")
          self.requires("spdlog/1.14.1")

      def layout(self):
          cmake_layout(self)
  \<close>
  The base class \<open>ConanFile\<close>, its method \<open>requires\<close> and the function
  \<open>cmake_layout\<close> belong to the package manager, not to the repository.
\<close>

subsection \<open>Class attributes\<close>

text \<open>
  The three attributes of the class body are the fields of a record. Whatever else the
  base class keeps in the object (the declared requirements, the folders, the values of
  the settings, the configuration) is the extension part of the record, left abstract.
  The tuples are lists; the dictionary is an association list in the order of the class
  body (Python dictionaries keep insertion order), read with \<open>map_of\<close>.
\<close>

record conanfile =
  settings :: "string list"
  generators :: "string list"
  default_options :: "(string \<times> bool) list"

definition Conan :: "'a \<Rightarrow> 'a conanfile_scheme" where
  "Conan base =
     \<lparr> settings = [''os'', ''compiler'', ''build_type'', ''arch''],
       generators = [''CMakeDeps'', ''CMakeToolchain''],
       default_options =
         [(''gtest/*:shared'', True),
          (''fmt/*:shared'', True),
          (''spdlog/*:shared'', True)],
       \<dots> = base \<rparr>"

subsection \<open>Methods\<close>

text \<open>
  \<open>self.requires\<close> is a method of the base class: it changes the object and may raise.
  It is a parameter of the model, a function from the object and the reference to
  either an error of the package manager (\<open>Inl\<close>) or the changed object (\<open>Inr\<close>).
  The three calls run in sequence; an exception raised by one of them leaves
  \<open>requirements\<close> at once, since the method has no \<open>try\<close>.
\<close>

definition requirements :: "('s \<Rightarrow> string \<Rightarrow> 'e + 's) \<Rightarrow> 's \<Rightarrow> 'e + 's" where
  "requirements requires self =
     (case requires self ''gtest/1.14.0'' of
        Inl e \<Rightarrow> Inl e
      | Inr self1 \<Rightarrow>
          (case requires self1 ''fmt/10.2.1'' of
             Inl e \<Rightarrow> Inl e
           | Inr self2 \<Rightarrow> requires self2 ''spdlog/1.14.1''))"

text \<open>
  \<open>cmake_layout\<close> is imported from the package manager and is a parameter as well.
\<close>

definition layout :: "('s \<Rightarrow> 'e + 's) \<Rightarrow> 's \<Rightarrow> 'e + 's" where
  "layout cmake_layout self = cmake_layout self"

subsection \<open>References, option keys and patterns of the package manager\<close>

text \<open>
  A requirement is a reference \<open>name/version\<close>: the name is the text before the first
  slash, the version the text after it. (The references of this recipe carry no user,
  channel or revision suffix.)
\<close>

definition ref_name :: "string \<Rightarrow> string" where
  "ref_name r = takeWhile (\<lambda>c. c \<noteq> CHR ''/'') r"

definition ref_version :: "string \<Rightarrow> string" where
  "ref_version r = drop 1 (dropWhile (\<lambda>c. c \<noteq> CHR ''/'') r)"

text \<open>
  A key of \<open>default_options\<close> that sets an option of a dependency is
  \<open>pattern:option\<close>, split at the first colon. The pattern is matched against the
  reference of a dependency in the style of Python's \<open>fnmatch\<close>; the patterns of this
  recipe use only literal characters and the star, which stands for any text, and
  \<open>glob\<close> covers these two.
\<close>

definition key_pattern :: "string \<Rightarrow> string" where
  "key_pattern k = takeWhile (\<lambda>c. c \<noteq> CHR '':'') k"

definition key_option :: "string \<Rightarrow> string" where
  "key_option k = drop 1 (dropWhile (\<lambda>c. c \<noteq> CHR '':'') k)"

fun glob :: "string \<Rightarrow> string \<Rightarrow> bool" where
  "glob [] s = (s = [])"
| "glob (p # ps) [] = (p = CHR ''*'' \<and> glob ps [])"
| "glob (p # ps) (c # s) =
     (if p = CHR ''*'' then glob ps (c # s) \<or> glob (p # ps) s
      else p = c \<and> glob ps s)"

text \<open>
  The values that the entries of an options dictionary give to option \<open>opt\<close> of the
  dependency with reference \<open>r\<close>, in the order of the dictionary.
\<close>

definition option_values :: "(string \<times> bool) list \<Rightarrow> string \<Rightarrow> string \<Rightarrow> bool list" where
  "option_values opts opt r =
     map snd (filter (\<lambda>(k, v). key_option k = opt \<and> glob (key_pattern k) r) opts)"

subsection \<open>Observing the calls of a method\<close>

text \<open>
  What a method asks of the package manager is made visible by wrapping the parameter:
  \<open>recording requires\<close> behaves as \<open>requires\<close> and appends the reference of each call
  to a log carried beside the object, whether the call returns or raises.
  \<open>observing cmake_layout\<close> behaves as \<open>cmake_layout\<close> and notes the object it was
  given.
\<close>

definition recording ::
  "('s \<Rightarrow> string \<Rightarrow> 'e + 's) \<Rightarrow> 's \<times> string list \<Rightarrow> string
     \<Rightarrow> ('e \<times> string list) + ('s \<times> string list)" where
  "recording requires = (\<lambda>(self, log) r.
     case requires self r of
       Inl e \<Rightarrow> Inl (e, log @ [r])
     | Inr self' \<Rightarrow> Inr (self', log @ [r]))"

definition observing ::
  "('s \<Rightarrow> 'e + 's) \<Rightarrow> 's \<times> 's list \<Rightarrow> 'e + ('s \<times> 's list)" where
  "observing cmake_layout = (\<lambda>(self, seen).
     case cmake_layout self of
       Inl e \<Rightarrow> Inl e
     | Inr self' \<Rightarrow> Inr (self', seen @ [self]))"


subsection \<open>A stand-in for the package manager\<close>

text \<open>
  To run the methods on concrete objects, a small stand-in for the two helpers of the
  package manager: the object keeps the list of declared requirements and the build
  folder; \<open>requires\<close> appends a reference and refuses a second requirement on a name
  already declared; \<open>cmake_layout\<close> sets the build folder and needs the build type
  among the settings. The theorems below do not rest on it: they hold for every
  helper, and the stand-in only instantiates them.
\<close>

datatype conan_exception = ConanException string

record tool =
  declared :: "string list"
  build_folder :: string

definition requires_standin ::
  "tool conanfile_scheme \<Rightarrow> string \<Rightarrow> conan_exception + tool conanfile_scheme" where
  "requires_standin self r =
     (if ref_name r \<in> set (map ref_name (declared (conanfile.more self)))
      then Inl (ConanException ''Duplicated requirement'')
      else Inr (self\<lparr>conanfile.more :=
                  (conanfile.more self)\<lparr>declared := declared (conanfile.more self) @ [r]\<rparr>\<rparr>))"

definition cmake_layout_standin ::
  "tool conanfile_scheme \<Rightarrow> conan_exception + tool conanfile_scheme" where
  "cmake_layout_standin self =
     (if ''build_type'' \<in> set (settings self)
      then Inr (self\<lparr>conanfile.more := (conanfile.more self)\<lparr>build_folder := ''build''\<rparr>\<rparr>)
      else Inl (ConanException ''build_type setting not defined''))"

definition fresh :: "string list \<Rightarrow> tool conanfile_scheme" where
  "fresh ds = Conan \<lparr>declared = ds, build_folder = []\<rparr>"

section \<open>Auxiliary facts\<close>

lemma glob_star: "glob ''*'' v"
  by (induction v) simp_all

lemma recording_same_run:
  "map_sum fst fst (requirements (recording requires) (self, log)) = requirements requires self"
  by (simp add: requirements_def recording_def split: sum.split)

lemma requirements_recording_Inr:
  assumes "requirements (recording requires) (self, log) = Inr (self', log')"
  shows "log' = log @ [''gtest/1.14.0'', ''fmt/10.2.1'', ''spdlog/1.14.1'']"
  using assms
  by (auto simp: requirements_def recording_def split: sum.splits)

lemma requirements_recording_Inl:
  assumes "requirements (recording requires) (self, log) = Inl (e, log')"
  shows "log' = log @ [''gtest/1.14.0'']
       \<or> log' = log @ [''gtest/1.14.0'', ''fmt/10.2.1'']
       \<or> log' = log @ [''gtest/1.14.0'', ''fmt/10.2.1'', ''spdlog/1.14.1'']"
  using assms
  by (auto simp: requirements_def recording_def split: sum.splits)

lemma requirements_recording_total:
  assumes "\<And>s r. \<exists>s'. requires s r = Inr s'"
  shows "\<exists>self'. requirements (recording requires) (self, log)
           = Inr (self', log @ [''gtest/1.14.0'', ''fmt/10.2.1'', ''spdlog/1.14.1''])"
proof -
  obtain s1 where 1: "requires self ''gtest/1.14.0'' = Inr s1"
    using assms by blast
  obtain s2 where 2: "requires s1 ''fmt/10.2.1'' = Inr s2"
    using assms by blast
  obtain s3 where 3: "requires s2 ''spdlog/1.14.1'' = Inr s3"
    using assms by blast
  show ?thesis
    by (simp add: requirements_def recording_def 1 2 3)
qed

lemma requirements_standin_fresh:
  "requirements (recording requires_standin) (fresh [], [])
     = Inr (fresh [''gtest/1.14.0'', ''fmt/10.2.1'', ''spdlog/1.14.1''],
            [''gtest/1.14.0'', ''fmt/10.2.1'', ''spdlog/1.14.1''])"
  by (simp add: requirements_def recording_def requires_standin_def fresh_def Conan_def
      ref_name_def)

section \<open>Build axes and generators\<close>

text \<open>
  Claim C3. The build axes declared in \<open>settings\<close> are exactly the operating system
  (\<open>os\<close>), the compiler, the build type and the target architecture (\<open>arch\<close>): these
  four, each once, and no other.
\<close>

theorem settings_exactly_four_axes:
  "set (settings (Conan base)) = {''os'', ''compiler'', ''build_type'', ''arch''}
   \<and> distinct (settings (Conan base))
   \<and> length (settings (Conan base)) = 4"
  by (simp add: Conan_def)

text \<open>
  Claim C5. The recipe names exactly two generators, both by the name of a helper of
  the package manager: \<open>CMakeDeps\<close> for the dependency metadata and \<open>CMakeToolchain\<close>
  for the toolchain configuration.
\<close>

theorem generators_exactly_two_helpers:
  "generators (Conan base) = [''CMakeDeps'', ''CMakeToolchain'']
   \<and> length (generators (Conan base)) = 2
   \<and> set (generators (Conan base)) = {''CMakeDeps'', ''CMakeToolchain''}"
  by (simp add: Conan_def)

section \<open>The declared dependencies\<close>

text \<open>
  Claim C1. Whatever the package manager does with them, the references that a
  completed run of \<open>requirements\<close> has passed to \<open>requires\<close> pin gtest to version
  1.14.0, fmt to version 10.2.1 and spdlog to version 1.14.1, exactly.
\<close>

theorem pinned_versions:
  assumes "requirements (recording requires) (self, []) = Inr (self', log)"
  shows "map (\<lambda>r. (ref_name r, ref_version r)) log =
           [(''gtest'', ''1.14.0''), (''fmt'', ''10.2.1''), (''spdlog'', ''1.14.1'')]"
proof -
  have "log = [''gtest/1.14.0'', ''fmt/10.2.1'', ''spdlog/1.14.1'']"
    using requirements_recording_Inr [OF assms] by simp
  then show ?thesis
    by (simp add: ref_name_def ref_version_def)
qed

theorem pinned_versions_witness:
  "requirements (recording requires_standin) (fresh [], []) =
     Inr (fresh [''gtest/1.14.0'', ''fmt/10.2.1'', ''spdlog/1.14.1''],
          [''gtest/1.14.0'', ''fmt/10.2.1'', ''spdlog/1.14.1''])
   \<and> map (\<lambda>r. (ref_name r, ref_version r))
        [''gtest/1.14.0'', ''fmt/10.2.1'', ''spdlog/1.14.1''] =
      [(''gtest'', ''1.14.0''), (''fmt'', ''10.2.1''), (''spdlog'', ''1.14.1'')]"
  using pinned_versions [OF requirements_standin_fresh] requirements_standin_fresh
  by simp

text \<open>
  Claim C4. A run of \<open>requirements\<close> that completes has declared exactly three
  dependencies, no more and no fewer: gtest (the testing framework), fmt (the
  formatting library) and spdlog (the logging library), each once. When the package
  manager accepts every requirement, the run completes.
\<close>

theorem exactly_three_declarations:
  "(requirements (recording requires) (self, log) = Inr (self', log') \<longrightarrow>
      log' = log @ [''gtest/1.14.0'', ''fmt/10.2.1'', ''spdlog/1.14.1'']
      \<and> length log' = length log + 3
      \<and> map ref_name (drop (length log) log') = [''gtest'', ''fmt'', ''spdlog''])
   \<and> ((\<forall>s r. \<exists>s'. requires s r = Inr s') \<longrightarrow>
      (\<exists>self'. requirements (recording requires) (self, log) =
         Inr (self', log @ [''gtest/1.14.0'', ''fmt/10.2.1'', ''spdlog/1.14.1''])))"
proof (intro conjI impI)
  assume run: "requirements (recording requires) (self, log) = Inr (self', log')"
  note eq = requirements_recording_Inr [OF run]
  show "log' = log @ [''gtest/1.14.0'', ''fmt/10.2.1'', ''spdlog/1.14.1'']"
    by (rule eq)
  show "length log' = length log + 3"
    by (simp add: eq)
  show "map ref_name (drop (length log) log') = [''gtest'', ''fmt'', ''spdlog'']"
    by (simp add: eq ref_name_def)
next
  assume "\<forall>s r. \<exists>s'. requires s r = Inr s'"
  then show "\<exists>self'. requirements (recording requires) (self, log) =
      Inr (self', log @ [''gtest/1.14.0'', ''fmt/10.2.1'', ''spdlog/1.14.1''])"
    by (intro requirements_recording_total) blast
qed

theorem exactly_three_declarations_witness:
  "requirements (recording requires_standin) (fresh [], []) =
     Inr (fresh [''gtest/1.14.0'', ''fmt/10.2.1'', ''spdlog/1.14.1''],
          [''gtest/1.14.0'', ''fmt/10.2.1'', ''spdlog/1.14.1''])
   \<and> length [''gtest/1.14.0'', ''fmt/10.2.1'', ''spdlog/1.14.1''] = 3
   \<and> map ref_name [''gtest/1.14.0'', ''fmt/10.2.1'', ''spdlog/1.14.1''] =
       [''gtest'', ''fmt'', ''spdlog'']
   \<and> (\<exists>n'. requirements (recording (\<lambda>(n::nat) r. Inr (Suc n) :: unit + nat)) (0, []) =
         Inr (n', [''gtest/1.14.0'', ''fmt/10.2.1'', ''spdlog/1.14.1'']))"
proof -
  have total: "\<forall>(n::nat) (r::string). \<exists>n'. (Inr (Suc n) :: unit + nat) = Inr n'"
    by simp
  from exactly_three_declarations
         [of requires_standin "fresh []" "[]"
             "fresh [''gtest/1.14.0'', ''fmt/10.2.1'', ''spdlog/1.14.1'']"
             "[''gtest/1.14.0'', ''fmt/10.2.1'', ''spdlog/1.14.1'']"]
       exactly_three_declarations
         [of "\<lambda>(n::nat) r. Inr (Suc n) :: unit + nat" 0 "[]"]
       total requirements_standin_fresh
  show ?thesis
    by simp
qed

text \<open>
  Claim C10. \<open>requirements\<close> is deterministic. Take any two runs, on any two objects
  (so with any values of the operating system, compiler, build type and architecture,
  which live in the object) and with any behaviour of the package manager (so in any
  environment): if both complete, both have declared the same three references in the
  same order. No declaration depends on a condition: a run that the package manager
  cuts short by raising has made the same calls up to that point.
\<close>

theorem requirements_deterministic:
  "(requirements (recording requires1) (self1, []) = Inr (out1, log1)
      \<and> requirements (recording requires2) (self2, []) = Inr (out2, log2) \<longrightarrow>
        log1 = log2 \<and> log1 = [''gtest/1.14.0'', ''fmt/10.2.1'', ''spdlog/1.14.1''])
   \<and> (requirements (recording requires1) (self1, []) = Inl (e, log1) \<longrightarrow>
        log1 \<noteq> []
        \<and> log1 = take (length log1) [''gtest/1.14.0'', ''fmt/10.2.1'', ''spdlog/1.14.1''])"
proof (intro conjI impI)
  assume runs: "requirements (recording requires1) (self1, []) = Inr (out1, log1)
      \<and> requirements (recording requires2) (self2, []) = Inr (out2, log2)"
  have 1: "log1 = [''gtest/1.14.0'', ''fmt/10.2.1'', ''spdlog/1.14.1'']"
    using runs requirements_recording_Inr [of requires1 self1 "[]" out1 log1] by simp
  have 2: "log2 = [''gtest/1.14.0'', ''fmt/10.2.1'', ''spdlog/1.14.1'']"
    using runs requirements_recording_Inr [of requires2 self2 "[]" out2 log2] by simp
  show "log1 = log2"
    by (simp only: 1 2)
  show "log1 = [''gtest/1.14.0'', ''fmt/10.2.1'', ''spdlog/1.14.1'']"
    by (rule 1)
next
  assume cut: "requirements (recording requires1) (self1, []) = Inl (e, log1)"
  from requirements_recording_Inl [OF cut]
  consider "log1 = [''gtest/1.14.0'']"
    | "log1 = [''gtest/1.14.0'', ''fmt/10.2.1'']"
    | "log1 = [''gtest/1.14.0'', ''fmt/10.2.1'', ''spdlog/1.14.1'']"
    by auto
  then have "log1 \<noteq> [] \<and>
      log1 = take (length log1) [''gtest/1.14.0'', ''fmt/10.2.1'', ''spdlog/1.14.1'']"
    by cases simp_all
  then show "log1 \<noteq> []"
    and "log1 = take (length log1) [''gtest/1.14.0'', ''fmt/10.2.1'', ''spdlog/1.14.1'']"
    by simp_all
qed

text \<open>
  Two runs of the witness differ in the object (another list of settings, another build
  folder) and in the helper; a third run is cut short at the second call.
\<close>

theorem requirements_deterministic_witness:
  "requirements (recording requires_standin) (fresh [], []) =
     Inr (fresh [''gtest/1.14.0'', ''fmt/10.2.1'', ''spdlog/1.14.1''],
          [''gtest/1.14.0'', ''fmt/10.2.1'', ''spdlog/1.14.1''])
   \<and> requirements (recording (\<lambda>s r. Inr (s\<lparr>generators := r # generators s\<rparr>) :: unit + conanfile))
        (Conan ()\<lparr>settings := [''os'', ''arch'']\<rparr>, []) =
     Inr (Conan ()\<lparr>settings := [''os'', ''arch''],
            generators := [''spdlog/1.14.1'', ''fmt/10.2.1'', ''gtest/1.14.0'',
                           ''CMakeDeps'', ''CMakeToolchain'']\<rparr>,
          [''gtest/1.14.0'', ''fmt/10.2.1'', ''spdlog/1.14.1''])
   \<and> requirements (recording requires_standin) (fresh [''fmt/9.1.0''], []) =
     Inl (ConanException ''Duplicated requirement'', [''gtest/1.14.0'', ''fmt/10.2.1''])
   \<and> [''gtest/1.14.0'', ''fmt/10.2.1''] =
       take 2 [''gtest/1.14.0'', ''fmt/10.2.1'', ''spdlog/1.14.1'']"
proof -
  let ?other = "\<lambda>s r. Inr (s\<lparr>generators := r # generators s\<rparr>) :: unit + conanfile"
  have other: "requirements (recording ?other) (Conan ()\<lparr>settings := [''os'', ''arch'']\<rparr>, []) =
     Inr (Conan ()\<lparr>settings := [''os'', ''arch''],
            generators := [''spdlog/1.14.1'', ''fmt/10.2.1'', ''gtest/1.14.0'',
                           ''CMakeDeps'', ''CMakeToolchain'']\<rparr>,
          [''gtest/1.14.0'', ''fmt/10.2.1'', ''spdlog/1.14.1''])"
    by (simp add: requirements_def recording_def Conan_def)
  have cut: "requirements (recording requires_standin) (fresh [''fmt/9.1.0''], []) =
     Inl (ConanException ''Duplicated requirement'', [''gtest/1.14.0'', ''fmt/10.2.1''])"
    by (simp add: requirements_def recording_def requires_standin_def fresh_def Conan_def
        ref_name_def)
  from requirements_deterministic
         [where ?requires1.0 = requires_standin and ?self1.0 = "fresh []"
            and ?out1.0 = "fresh [''gtest/1.14.0'', ''fmt/10.2.1'', ''spdlog/1.14.1'']"
            and ?log1.0 = "[''gtest/1.14.0'', ''fmt/10.2.1'', ''spdlog/1.14.1'']"
            and ?requires2.0 = ?other
            and ?self2.0 = "Conan ()\<lparr>settings := [''os'', ''arch'']\<rparr>"
            and ?out2.0 = "Conan ()\<lparr>settings := [''os'', ''arch''],
                generators := [''spdlog/1.14.1'', ''fmt/10.2.1'', ''gtest/1.14.0'',
                               ''CMakeDeps'', ''CMakeToolchain'']\<rparr>"
            and ?log2.0 = "[''gtest/1.14.0'', ''fmt/10.2.1'', ''spdlog/1.14.1'']"]
       requirements_deterministic
         [where ?requires1.0 = requires_standin and ?self1.0 = "fresh [''fmt/9.1.0'']"
            and e = "ConanException ''Duplicated requirement''"
            and ?log1.0 = "[''gtest/1.14.0'', ''fmt/10.2.1'']"]
       requirements_standin_fresh other cut
  show ?thesis
    by simp
qed

section \<open>The shared-linkage options\<close>

text \<open>
  Claim C2. For each of the three declared dependencies, gtest, fmt and spdlog, the
  dictionary \<open>default_options\<close> of the class body sets the option \<open>shared\<close> to
  \<open>True\<close>: for the three names, and so for the name of every reference that a
  completed run of \<open>requirements\<close> has declared.
\<close>

theorem shared_option_true:
  "map_of (default_options (Conan base)) ''gtest/*:shared'' = Some True
   \<and> map_of (default_options (Conan base)) ''fmt/*:shared'' = Some True
   \<and> map_of (default_options (Conan base)) ''spdlog/*:shared'' = Some True
   \<and> (requirements (recording requires) (self, []) = Inr (self', log) \<longrightarrow>
        (\<forall>r \<in> set log.
           map_of (default_options (Conan base)) (ref_name r @ ''/*:shared'') = Some True))"
proof (intro conjI impI ballI)
  fix r
  assume run: "requirements (recording requires) (self, []) = Inr (self', log)"
    and r: "r \<in> set log"
  have "log = [''gtest/1.14.0'', ''fmt/10.2.1'', ''spdlog/1.14.1'']"
    using requirements_recording_Inr [OF run] by simp
  with r consider "r = ''gtest/1.14.0''" | "r = ''fmt/10.2.1''" | "r = ''spdlog/1.14.1''"
    by auto
  then show "map_of (default_options (Conan base)) (ref_name r @ ''/*:shared'') = Some True"
    by cases (simp_all add: Conan_def ref_name_def)
qed (simp_all add: Conan_def)

theorem shared_option_true_witness:
  "requirements (recording requires_standin) (fresh [], []) =
     Inr (fresh [''gtest/1.14.0'', ''fmt/10.2.1'', ''spdlog/1.14.1''],
          [''gtest/1.14.0'', ''fmt/10.2.1'', ''spdlog/1.14.1''])
   \<and> ''fmt/10.2.1'' \<in> set [''gtest/1.14.0'', ''fmt/10.2.1'', ''spdlog/1.14.1'']
   \<and> map_of (default_options (fresh [])) (ref_name ''fmt/10.2.1'' @ ''/*:shared'') = Some True"
proof -
  have mem: "''fmt/10.2.1'' \<in> set [''gtest/1.14.0'', ''fmt/10.2.1'', ''spdlog/1.14.1'']"
    by simp
  from shared_option_true
         [of "\<lparr>declared = [], build_folder = []\<rparr>" requires_standin "fresh []"
             "fresh [''gtest/1.14.0'', ''fmt/10.2.1'', ''spdlog/1.14.1'']"
             "[''gtest/1.14.0'', ''fmt/10.2.1'', ''spdlog/1.14.1'']"]
       requirements_standin_fresh mem
  have "map_of (default_options (Conan \<lparr>declared = [], build_folder = []\<rparr>))
          (ref_name ''fmt/10.2.1'' @ ''/*:shared'') = Some True"
    by blast
  with requirements_standin_fresh mem show ?thesis
    by (simp only: fresh_def simp_thms)
qed

text \<open>
  Claim C9. Each key that sets \<open>shared\<close> names its dependency with the version
  pattern \<open>*\<close>: the keys are gtest, fmt and spdlog, each with version \<open>*\<close> and option
  \<open>shared\<close>. So the option is \<open>True\<close> for every version \<open>v\<close> of each of the three
  dependencies, not only for the version that \<open>requirements\<close> pins; no key mentions
  a version.
\<close>

theorem shared_option_any_version:
  "map (\<lambda>(k, v). (ref_name (key_pattern k), ref_version (key_pattern k), key_option k, v))
       (default_options (Conan base)) =
     [(''gtest'', ''*'', ''shared'', True),
      (''fmt'', ''*'', ''shared'', True),
      (''spdlog'', ''*'', ''shared'', True)]
   \<and> option_values (default_options (Conan base)) ''shared'' (''gtest/'' @ v) = [True]
   \<and> option_values (default_options (Conan base)) ''shared'' (''fmt/'' @ v) = [True]
   \<and> option_values (default_options (Conan base)) ''shared'' (''spdlog/'' @ v) = [True]"
  by (simp add: Conan_def option_values_def key_pattern_def key_option_def
      ref_name_def ref_version_def glob_star)

section \<open>Delegation, errors and the frame\<close>

text \<open>
  Claim C6. \<open>layout\<close> has no logic of its own: for every helper \<open>cmake_layout\<close> and
  every object, its outcome is the outcome of the helper on that object, and the helper
  is called once, on the object as \<open>layout\<close> received it.
\<close>

theorem layout_delegates:
  "layout cmake_layout self = cmake_layout self
   \<and> layout (observing cmake_layout) (self, []) =
       (case cmake_layout self of
          Inl e \<Rightarrow> Inl e
        | Inr self' \<Rightarrow> Inr (self', [self]))"
  by (simp add: layout_def observing_def split: sum.split)

text \<open>
  Claim C7. The recipe has no error, no recovery and no failure message of its own. The
  type of errors is a parameter of the model, so the methods cannot make an error.
  \<open>requirements\<close> ends in an error exactly when one of its three calls of
  \<open>requires\<close> raises, on the object as the calls before it left it, and then it ends
  in that very error: it is neither caught nor replaced, and no later call is made.
  \<open>layout\<close> ends in an error exactly when \<open>cmake_layout\<close> raises on the object it
  was given, and in that very error. When no helper raises, neither method does.
\<close>

theorem errors_come_from_tool:
  "(requirements requires self = Inl e \<longleftrightarrow>
      requires self ''gtest/1.14.0'' = Inl e
      \<or> (\<exists>s1. requires self ''gtest/1.14.0'' = Inr s1
              \<and> requires s1 ''fmt/10.2.1'' = Inl e)
      \<or> (\<exists>s1 s2. requires self ''gtest/1.14.0'' = Inr s1
              \<and> requires s1 ''fmt/10.2.1'' = Inr s2
              \<and> requires s2 ''spdlog/1.14.1'' = Inl e))
   \<and> (requirements requires self = Inr self' \<longleftrightarrow>
      (\<exists>s1 s2. requires self ''gtest/1.14.0'' = Inr s1
              \<and> requires s1 ''fmt/10.2.1'' = Inr s2
              \<and> requires s2 ''spdlog/1.14.1'' = Inr self'))
   \<and> (layout cmake_layout self = Inl e \<longleftrightarrow> cmake_layout self = Inl e)
   \<and> (layout cmake_layout self = Inr self' \<longleftrightarrow> cmake_layout self = Inr self')"
proof (intro conjI)
  show "requirements requires self = Inl e \<longleftrightarrow>
      requires self ''gtest/1.14.0'' = Inl e
      \<or> (\<exists>s1. requires self ''gtest/1.14.0'' = Inr s1
              \<and> requires s1 ''fmt/10.2.1'' = Inl e)
      \<or> (\<exists>s1 s2. requires self ''gtest/1.14.0'' = Inr s1
              \<and> requires s1 ''fmt/10.2.1'' = Inr s2
              \<and> requires s2 ''spdlog/1.14.1'' = Inl e)"
  proof (cases "requires self ''gtest/1.14.0''")
    case (Inl e1)
    then show ?thesis
      by (simp add: requirements_def)
  next
    case first: (Inr self1)
    show ?thesis
    proof (cases "requires self1 ''fmt/10.2.1''")
      case (Inl e2)
      with first show ?thesis
        by (simp add: requirements_def)
    next
      case (Inr self2)
      with first show ?thesis
        by (simp add: requirements_def)
    qed
  qed
next
  show "requirements requires self = Inr self' \<longleftrightarrow>
      (\<exists>s1 s2. requires self ''gtest/1.14.0'' = Inr s1
              \<and> requires s1 ''fmt/10.2.1'' = Inr s2
              \<and> requires s2 ''spdlog/1.14.1'' = Inr self')"
  proof (cases "requires self ''gtest/1.14.0''")
    case (Inl e1)
    then show ?thesis
      by (simp add: requirements_def)
  next
    case first: (Inr self1)
    show ?thesis
    proof (cases "requires self1 ''fmt/10.2.1''")
      case (Inl e2)
      with first show ?thesis
        by (simp add: requirements_def)
    next
      case (Inr self2)
      with first show ?thesis
        by (simp add: requirements_def)
    qed
  qed
next
  show "layout cmake_layout self = Inl e \<longleftrightarrow> cmake_layout self = Inl e"
    by (simp add: layout_def)
next
  show "layout cmake_layout self = Inr self' \<longleftrightarrow> cmake_layout self = Inr self'"
    by (simp add: layout_def)
qed

text \<open>
  The stand-in refuses a requirement on a name declared before. In the three runs of
  the witness it refuses gtest at the first call, fmt at the second and spdlog at the
  third, and each time \<open>requirements\<close> ends in the error of the stand-in; it also
  refuses to lay out an object whose settings lack the build type, and \<open>layout\<close> ends
  in that error. On a fresh object nothing is refused and both methods return.
\<close>

theorem errors_come_from_tool_witness:
  "requires_standin (fresh [''gtest/1.0.0'']) ''gtest/1.14.0'' =
     Inl (ConanException ''Duplicated requirement'')
   \<and> requirements requires_standin (fresh [''gtest/1.0.0'']) =
     Inl (ConanException ''Duplicated requirement'')
   \<and> requires_standin (fresh [''fmt/9.1.0'']) ''gtest/1.14.0'' =
     Inr (fresh [''fmt/9.1.0'', ''gtest/1.14.0''])
   \<and> requires_standin (fresh [''fmt/9.1.0'', ''gtest/1.14.0'']) ''fmt/10.2.1'' =
     Inl (ConanException ''Duplicated requirement'')
   \<and> requirements requires_standin (fresh [''fmt/9.1.0'']) =
     Inl (ConanException ''Duplicated requirement'')
   \<and> requires_standin (fresh [''spdlog/1.0.0'', ''gtest/1.14.0'', ''fmt/10.2.1''])
        ''spdlog/1.14.1'' =
     Inl (ConanException ''Duplicated requirement'')
   \<and> requirements requires_standin (fresh [''spdlog/1.0.0'']) =
     Inl (ConanException ''Duplicated requirement'')
   \<and> requirements requires_standin (fresh []) =
     Inr (fresh [''gtest/1.14.0'', ''fmt/10.2.1'', ''spdlog/1.14.1''])
   \<and> cmake_layout_standin (fresh []\<lparr>settings := [''os'']\<rparr>) =
     Inl (ConanException ''build_type setting not defined'')
   \<and> layout cmake_layout_standin (fresh []\<lparr>settings := [''os'']\<rparr>) =
     Inl (ConanException ''build_type setting not defined'')
   \<and> layout cmake_layout_standin (fresh []) =
     Inr (Conan \<lparr>declared = [], build_folder = ''build''\<rparr>)"
proof -
  let ?dup = "ConanException ''Duplicated requirement''"
  let ?nobt = "ConanException ''build_type setting not defined''"
  have a1: "requires_standin (fresh [''gtest/1.0.0'']) ''gtest/1.14.0'' = Inl ?dup"
    by (simp add: requires_standin_def fresh_def Conan_def ref_name_def)
  have b1: "requires_standin (fresh [''fmt/9.1.0'']) ''gtest/1.14.0'' =
      Inr (fresh [''fmt/9.1.0'', ''gtest/1.14.0''])"
    by (simp add: requires_standin_def fresh_def Conan_def ref_name_def)
  have b2: "requires_standin (fresh [''fmt/9.1.0'', ''gtest/1.14.0'']) ''fmt/10.2.1'' =
      Inl ?dup"
    by (simp add: requires_standin_def fresh_def Conan_def ref_name_def)
  have c1: "requires_standin (fresh [''spdlog/1.0.0'']) ''gtest/1.14.0'' =
      Inr (fresh [''spdlog/1.0.0'', ''gtest/1.14.0''])"
    by (simp add: requires_standin_def fresh_def Conan_def ref_name_def)
  have c2: "requires_standin (fresh [''spdlog/1.0.0'', ''gtest/1.14.0'']) ''fmt/10.2.1'' =
      Inr (fresh [''spdlog/1.0.0'', ''gtest/1.14.0'', ''fmt/10.2.1''])"
    by (simp add: requires_standin_def fresh_def Conan_def ref_name_def)
  have c3: "requires_standin (fresh [''spdlog/1.0.0'', ''gtest/1.14.0'', ''fmt/10.2.1''])
      ''spdlog/1.14.1'' = Inl ?dup"
    by (simp add: requires_standin_def fresh_def Conan_def ref_name_def)
  have d1: "requires_standin (fresh []) ''gtest/1.14.0'' = Inr (fresh [''gtest/1.14.0''])"
    by (simp add: requires_standin_def fresh_def Conan_def ref_name_def)
  have d2: "requires_standin (fresh [''gtest/1.14.0'']) ''fmt/10.2.1'' =
      Inr (fresh [''gtest/1.14.0'', ''fmt/10.2.1''])"
    by (simp add: requires_standin_def fresh_def Conan_def ref_name_def)
  have d3: "requires_standin (fresh [''gtest/1.14.0'', ''fmt/10.2.1'']) ''spdlog/1.14.1'' =
      Inr (fresh [''gtest/1.14.0'', ''fmt/10.2.1'', ''spdlog/1.14.1''])"
    by (simp add: requires_standin_def fresh_def Conan_def ref_name_def)
  have l1: "cmake_layout_standin (fresh []\<lparr>settings := [''os'']\<rparr>) = Inl ?nobt"
    by (simp add: cmake_layout_standin_def fresh_def Conan_def)
  have l2: "cmake_layout_standin (fresh []) =
      Inr (Conan \<lparr>declared = [], build_folder = ''build''\<rparr>)"
    by (simp add: cmake_layout_standin_def fresh_def Conan_def)
  have A: "requirements requires_standin (fresh [''gtest/1.0.0'']) = Inl ?dup"
    using errors_come_from_tool
            [where requires = requires_standin and self = "fresh [''gtest/1.0.0'']"
               and e = ?dup]
          a1
    by blast
  have B: "requirements requires_standin (fresh [''fmt/9.1.0'']) = Inl ?dup"
    using errors_come_from_tool
            [where requires = requires_standin and self = "fresh [''fmt/9.1.0'']"
               and e = ?dup]
          b1 b2
    by blast
  have C: "requirements requires_standin (fresh [''spdlog/1.0.0'']) = Inl ?dup"
    using errors_come_from_tool
            [where requires = requires_standin and self = "fresh [''spdlog/1.0.0'']"
               and e = ?dup]
          c1 c2 c3
    by blast
  have D: "requirements requires_standin (fresh []) =
      Inr (fresh [''gtest/1.14.0'', ''fmt/10.2.1'', ''spdlog/1.14.1''])"
    using errors_come_from_tool
            [where requires = requires_standin and self = "fresh []"
               and self' = "fresh [''gtest/1.14.0'', ''fmt/10.2.1'', ''spdlog/1.14.1'']"]
          d1 d2 d3
    by blast
  have L1: "layout cmake_layout_standin (fresh []\<lparr>settings := [''os'']\<rparr>) = Inl ?nobt"
    using errors_come_from_tool
            [where cmake_layout = cmake_layout_standin
               and self = "fresh []\<lparr>settings := [''os'']\<rparr>" and e = ?nobt]
          l1
    by blast
  have L2: "layout cmake_layout_standin (fresh []) =
      Inr (Conan \<lparr>declared = [], build_folder = ''build''\<rparr>)"
    using errors_come_from_tool
            [where cmake_layout = cmake_layout_standin and self = "fresh []"
               and self' = "Conan \<lparr>declared = [], build_folder = ''build''\<rparr>"]
          l2
    by blast
  from a1 A b1 b2 B c3 C D l1 L1 L2 show ?thesis
    by (intro conjI)
qed




end
